theory Spec2Isabelle
  imports Complex_Main
begin

section \<open>Values shared by the pages and hooks\<close>

text \<open>
  A \<^verbatim>\<open>PublicKey\<close> of the chain library is modelled by its base58 text: \<^verbatim>\<open>toString()\<close>
  returns that text and \<^verbatim>\<open>equals\<close> compares the keys. A JavaScript number is the rational
  (\<^typ>\<open>rat\<close>) that the double is; \<^verbatim>\<open>NaN\<close> appears only as the \<open>None\<close> result of
  \<^verbatim>\<open>parseFloat\<close>, and the infinities are outside this model. The product of two doubles
  in the send flow is rounded by the platform and is a parameter (\<open>ieee_times\<close>);
  comparisons and \<^verbatim>\<open>Math.floor\<close> are exact. A thrown value is an \<open>exn\<close>;
  a call that may throw returns \<open>exn + 'a\<close>, with \<open>Inl\<close> the thrown value.
\<close>

datatype PublicKey = PublicKey string

fun toString :: "PublicKey \<Rightarrow> string" where
  "toString (PublicKey s) = s"

definition equals :: "PublicKey \<Rightarrow> PublicKey \<Rightarrow> bool" where
  "equals a b = (a = b)"

datatype exn = Error string | NonError

section \<open>The profile page: listings of the wallet and NFTs available to list\<close>

text \<open>
  \<^verbatim>\<open>useListings\<close> and the listing account type live in hooks and a library that are
  not part of the sources at hand; the page reads \<^verbatim>\<open>l.account.seller\<close> and
  \<^verbatim>\<open>l.account.nftMint\<close> of each listing, and \<^verbatim>\<open>n.mint\<close> (a string, here \<open>nft_mint\<close>)
  of each NFT that \<^verbatim>\<open>useNFTs\<close> hands to the page.
\<close>

record ListingAccount =
  seller :: PublicKey
  nftMint :: PublicKey
  price :: nat

record Listing =
  listing_publicKey :: PublicKey
  account :: ListingAccount

record NFT =
  nft_mint :: string
  nft_name :: string
  nft_image :: string
  nft_description :: "string option"
  nft_symbol :: "string option"
  nft_attributes :: "(string \<times> string) list option"
  nft_collection :: "string option"
  nft_isListed :: bool

definition myListings :: "PublicKey option \<Rightarrow> Listing list \<Rightarrow> Listing list" where
  "myListings publicKey listings =
     (case publicKey of
        None \<Rightarrow> []
      | Some pk \<Rightarrow> filter (\<lambda>l. equals (seller (account l)) pk) listings)"

definition listedMints :: "PublicKey option \<Rightarrow> Listing list \<Rightarrow> string set" where
  "listedMints publicKey listings =
     set (map (\<lambda>l. toString (nftMint (account l))) (myListings publicKey listings))"

definition ownedNotListed :: "PublicKey option \<Rightarrow> Listing list \<Rightarrow> NFT list \<Rightarrow> NFT list" where
  "ownedNotListed publicKey listings nfts =
     filter (\<lambda>n. nft_mint n \<notin> listedMints publicKey listings) nfts"

section \<open>The wallet sheet: the persisted cache\<close>

text \<open>
  \<^verbatim>\<open>localStorage\<close> maps keys to texts. \<^verbatim>\<open>typeof window === "undefined"\<close> is the
  world without a window; a storage that is blocked or full throws from \<^verbatim>\<open>getItem\<close> or
  \<^verbatim>\<open>setItem\<close>. \<^verbatim>\<open>JSON.stringify\<close> and \<^verbatim>\<open>JSON.parse\<close> belong to the platform and are
  parameters, one pair per payload type (\<^verbatim>\<open>JSON.parse\<close> is typed by an unchecked cast in
  the source); \<open>parse\<close> returns \<open>None\<close> where \<^verbatim>\<open>JSON.parse\<close> throws or yields null, so
  that reading a field of the result throws. Texts that parse to anything else than an
  envelope of the payload type are outside this typed model. \<open>now\<close> is what
  \<^verbatim>\<open>Date.now()\<close> returns, \<open>requests\<close> the network requests issued so far, oldest first,
  and \<open>draws\<close> the number of \<^verbatim>\<open>Math.random()\<close> calls made so far.
\<close>

definition CACHE_KEY_PREFIX :: string where
  "CACHE_KEY_PREFIX = ''pixelmart_wallet_''"

definition BALANCE_CACHE_TTL :: int where
  "BALANCE_CACHE_TTL = 30 * 1000"

definition TX_CACHE_TTL :: int where
  "TX_CACHE_TTL = 60 * 1000"

record 'a CachedData =
  data :: 'a
  timestamp :: int

record 'a JSON =
  stringify :: "'a CachedData \<Rightarrow> string"
  parse :: "string \<Rightarrow> 'a CachedData option"

record Storage =
  items :: "string \<rightharpoonup> string"
  getItem_throws :: bool
  setItem_throws :: bool

definition getItem :: "Storage \<Rightarrow> string \<Rightarrow> exn + string option" where
  "getItem ls k = (if getItem_throws ls then Inl (Error ''SecurityError'') else Inr (items ls k))"

definition setItem :: "Storage \<Rightarrow> string \<Rightarrow> string \<Rightarrow> exn + Storage" where
  "setItem ls k v =
     (if setItem_throws ls then Inl (Error ''QuotaExceededError'')
      else Inr (ls\<lparr>items := (items ls)(k \<mapsto> v)\<rparr>))"

record Transfer =
  fromPubkey :: PublicKey
  toPubkey :: PublicKey
  lamports :: int

type_synonym Transaction = "Transfer list"

datatype request =
    GetBalance PublicKey
  | GetSignaturesForAddress PublicKey nat
  | SendTransaction Transaction
  | ConfirmTransaction string

record world =
  window :: "Storage option"
  now :: int
  requests :: "request list"
  draws :: nat

definition getCache :: "'a JSON \<Rightarrow> world \<Rightarrow> string \<Rightarrow> 'a option" where
  "getCache J w key =
     (case window w of
        None \<Rightarrow> None
      | Some ls \<Rightarrow>
          (case getItem ls (CACHE_KEY_PREFIX @ key) of
             Inl e \<Rightarrow> None
           | Inr None \<Rightarrow> None
           | Inr (Some cached) \<Rightarrow>
               if cached = [] then None
               else (case parse J cached of
                       None \<Rightarrow> None
                     | Some parsed \<Rightarrow> Some (data parsed))))"

definition setCache :: "'a JSON \<Rightarrow> string \<Rightarrow> 'a \<Rightarrow> world \<Rightarrow> world" where
  "setCache J key d w =
     (case window w of
        None \<Rightarrow> w
      | Some ls \<Rightarrow>
          (let cached = \<lparr>data = d, timestamp = now w\<rparr> in
           case setItem ls (CACHE_KEY_PREFIX @ key) (stringify J cached) of
             Inl e \<Rightarrow> w
           | Inr ls' \<Rightarrow> w\<lparr>window := Some ls'\<rparr>))"

definition isCacheValid :: "'a JSON \<Rightarrow> world \<Rightarrow> string \<Rightarrow> int \<Rightarrow> bool" where
  "isCacheValid J w key ttl =
     (case window w of
        None \<Rightarrow> False
      | Some ls \<Rightarrow>
          (case getItem ls (CACHE_KEY_PREFIX @ key) of
             Inl e \<Rightarrow> False
           | Inr None \<Rightarrow> False
           | Inr (Some cached) \<Rightarrow>
               if cached = [] then False
               else (case parse J cached of
                       None \<Rightarrow> False
                     | Some parsed \<Rightarrow> now w - timestamp parsed < ttl)))"

section \<open>The wallet sheet: balance, activity and send\<close>

text \<open>
  The connection is that of the chain library, shared by the sheet and by the hook
  \<^verbatim>\<open>useOwnedNFTs\<close>. A token account of the owner is read through
  \<^verbatim>\<open>account.pubkey\<close> and, under \<^verbatim>\<open>account.account.data.parsed.info\<close>, \<^verbatim>\<open>mint\<close>
  (the base58 text of the mint, so that \<^verbatim>\<open>new PublicKey(parsed.mint)\<close> is that key),
  \<^verbatim>\<open>tokenAmount.uiAmount\<close> (a number or null) and \<^verbatim>\<open>tokenAmount.decimals\<close>.
  The connection answers each request with a value or a thrown error, after \<open>elapsed\<close>
  milliseconds; \<open>await\<close> records the request and lets that time pass. The answers are
  those of the chain at the time of the call, a fixed function here. The React state of
  the sheet is the record \<open>WalletSheet\<close>; the wallet adapter gives \<open>publicKey\<close> and
  \<open>sendTransaction\<close>, either of which may be missing. Console output is not modelled.
  \<open>LAMPORTS_PER_SOL\<close> is the constant of the chain library. \<^verbatim>\<open>Math.random()\<close> is the
  stream \<open>random\<close> of the platform, read at position \<open>draws\<close>.
\<close>

definition LAMPORTS_PER_SOL :: nat where
  "LAMPORTS_PER_SOL = 1000000000"

datatype tx_type = sent | received

datatype tx_status = success | failed

record TransactionItem =
  signature :: string
  tx_type :: tx_type
  tx_amount :: rat
  tx_timestamp :: int
  tx_status :: tx_status

record ConfirmedSignatureInfo =
  sig_signature :: string
  blockTime :: "int option"
  err :: "exn option"

record TokenAccount =
  pubkey :: PublicKey
  info_mint :: PublicKey
  uiAmount :: "rat option"
  decimals :: nat

record AccountInfo =
  owner :: PublicKey
  account_lamports :: nat

record connection =
  getBalance :: "PublicKey \<Rightarrow> exn + nat"
  getSignaturesForAddress :: "PublicKey \<Rightarrow> nat \<Rightarrow> exn + ConfirmedSignatureInfo list"
  confirmTransaction :: "string \<Rightarrow> exn + unit"
  getParsedTokenAccountsByOwner :: "PublicKey \<Rightarrow> exn + TokenAccount list"
  getAccountInfo :: "PublicKey \<Rightarrow> exn + AccountInfo option"
  elapsed :: "request \<Rightarrow> nat"

record wallet =
  publicKey :: "PublicKey option"
  sendTransaction :: "(Transaction \<Rightarrow> exn + string) option"

record platform =
  JSON_number :: "rat JSON"
  JSON_txs :: "TransactionItem list JSON"
  parseFloat :: "string \<Rightarrow> rat option"
  isPublicKey :: "string \<Rightarrow> bool"
  random :: "nat \<Rightarrow> rat"
  ieee_times :: "rat \<Rightarrow> rat \<Rightarrow> rat"
  u64_error :: "int \<Rightarrow> exn"

record WalletSheet =
  balance :: "rat option"
  loadingBalance :: bool
  transactions :: "TransactionItem list"
  loadingTxs :: bool
  recipient :: string
  amount :: string
  sending :: bool
  sendError :: string
  sendSuccess :: string

definition await :: "connection \<Rightarrow> request \<Rightarrow> world \<Rightarrow> world" where
  "await conn r w = w\<lparr>requests := requests w @ [r], now := now w + int (elapsed conn r)\<rparr>"

definition walletAddress :: "PublicKey option \<Rightarrow> string" where
  "walletAddress pk = (case pk of None \<Rightarrow> [] | Some k \<Rightarrow> toString k)"

definition balanceCacheKey :: "PublicKey option \<Rightarrow> string" where
  "balanceCacheKey pk = (case pk of None \<Rightarrow> [] | Some k \<Rightarrow> ''balance_'' @ walletAddress pk)"

definition txCacheKey :: "PublicKey option \<Rightarrow> string" where
  "txCacheKey pk = (case pk of None \<Rightarrow> [] | Some k \<Rightarrow> ''txs_'' @ walletAddress pk)"

definition fetchBalance ::
  "connection \<Rightarrow> platform \<Rightarrow> wallet \<Rightarrow> bool \<Rightarrow> WalletSheet \<Rightarrow> world \<Rightarrow> WalletSheet \<times> world" where
  "fetchBalance conn P wal forceRefresh s w =
     (case publicKey wal of
        None \<Rightarrow> (s, w)
      | Some pk \<Rightarrow>
          (case (if \<not> forceRefresh
                    \<and> isCacheValid (JSON_number P) w (balanceCacheKey (publicKey wal))
                         BALANCE_CACHE_TTL
                 then getCache (JSON_number P) w (balanceCacheKey (publicKey wal)) else None) of
             Some cached \<Rightarrow> (s\<lparr>balance := Some cached\<rparr>, w)
           | None \<Rightarrow>
              (let s1 = s\<lparr>loadingBalance := True\<rparr>;
                   w1 = await conn (GetBalance pk) w
               in case getBalance conn pk of
                    Inr bal \<Rightarrow>
                      (let balanceInSol = of_nat bal / of_nat LAMPORTS_PER_SOL
                       in (s1\<lparr>balance := Some balanceInSol, loadingBalance := False\<rparr>,
                           setCache (JSON_number P) (balanceCacheKey (publicKey wal))
                             balanceInSol w1))
                  | Inl e \<Rightarrow> (s1\<lparr>balance := None, loadingBalance := False\<rparr>, w1))))"

fun toTransactionItems ::
  "(nat \<Rightarrow> rat) \<Rightarrow> int \<Rightarrow> nat \<Rightarrow> ConfirmedSignatureInfo list \<Rightarrow> TransactionItem list" where
  "toTransactionItems rnd t k [] = []"
| "toTransactionItems rnd t k (sig # sigs) =
     \<lparr>signature = sig_signature sig,
      tx_type = (if rnd k > 1 / 2 then sent else received),
      tx_amount = rnd (k + 1) * 2,
      tx_timestamp =
        (case blockTime sig of
           None \<Rightarrow> t
         | Some b \<Rightarrow> if b \<noteq> 0 then b * 1000 else t),
      tx_status = (case err sig of None \<Rightarrow> success | Some e \<Rightarrow> failed)\<rparr>
     # toTransactionItems rnd t (k + 2) sigs"

definition fetchTransactions ::
  "connection \<Rightarrow> platform \<Rightarrow> wallet \<Rightarrow> bool \<Rightarrow> WalletSheet \<Rightarrow> world \<Rightarrow> WalletSheet \<times> world" where
  "fetchTransactions conn P wal forceRefresh s w =
     (case publicKey wal of
        None \<Rightarrow> (s, w)
      | Some pk \<Rightarrow>
          (case (if \<not> forceRefresh
                    \<and> isCacheValid (JSON_txs P) w (txCacheKey (publicKey wal)) TX_CACHE_TTL
                 then getCache (JSON_txs P) w (txCacheKey (publicKey wal)) else None) of
             Some cached \<Rightarrow> (s\<lparr>transactions := cached\<rparr>, w)
           | None \<Rightarrow>
              (let s1 = s\<lparr>loadingTxs := True\<rparr>;
                   w1 = await conn (GetSignaturesForAddress pk 10) w
               in case getSignaturesForAddress conn pk 10 of
                    Inr signatures \<Rightarrow>
                      (let txs = toTransactionItems (random P) (now w1) (draws w1) signatures;
                           w2 = w1\<lparr>draws := draws w1 + 2 * length signatures\<rparr>
                       in (s1\<lparr>transactions := txs, loadingTxs := False\<rparr>,
                           setCache (JSON_txs P) (txCacheKey (publicKey wal)) txs w2))
                  | Inl e \<Rightarrow> (s1\<lparr>loadingTxs := False\<rparr>, w1))))"

definition PublicKey_new :: "platform \<Rightarrow> string \<Rightarrow> exn + PublicKey" where
  "PublicKey_new P s =
     (if isPublicKey P s then Inr (PublicKey s) else Inl (Error ''Invalid public key input''))"

text \<open>
  \<^verbatim>\<open>SystemProgram.transfer\<close> of the chain library builds the transfer instruction and
  encodes the lamports as an unsigned 64-bit integer: for a value outside that range the
  encoder throws (\<open>u64_error\<close>, the library's error) and no instruction is built. The
  source calls it inside the \<^verbatim>\<open>try\<close> of \<open>handleSend\<close>, before anything is awaited.
\<close>

definition SystemProgram_transfer ::
  "platform \<Rightarrow> PublicKey \<Rightarrow> PublicKey \<Rightarrow> int \<Rightarrow> exn + Transfer" where
  "SystemProgram_transfer P sender receiver n =
     (if 0 \<le> n \<and> n < 2 ^ 64
      then Inr \<lparr>fromPubkey = sender, toPubkey = receiver, lamports = n\<rparr>
      else Inl (u64_error P n))"

definition failure_text :: "exn \<Rightarrow> string" where
  "failure_text e = (case e of Error m \<Rightarrow> m | NonError \<Rightarrow> ''Transaction failed'')"

definition handleSend ::
  "connection \<Rightarrow> platform \<Rightarrow> wallet \<Rightarrow> WalletSheet \<Rightarrow> world \<Rightarrow> WalletSheet \<times> world" where
  "handleSend conn P wal s w =
     (case (publicKey wal, sendTransaction wal) of
        (Some pk, Some send) \<Rightarrow>
          (let s1 = s\<lparr>sendError := [], sendSuccess := []\<rparr> in
           case PublicKey_new P (recipient s) of
             Inl e \<Rightarrow> (s1\<lparr>sendError := ''Invalid recipient address''\<rparr>, w)
           | Inr recipientPubkey \<Rightarrow>
               (case parseFloat P (amount s) of
                  None \<Rightarrow> (s1\<lparr>sendError := ''Invalid amount''\<rparr>, w)
                | Some amountNum \<Rightarrow>
                    if amountNum \<le> 0 then (s1\<lparr>sendError := ''Invalid amount''\<rparr>, w)
                    else if (case balance s of None \<Rightarrow> False | Some b \<Rightarrow> amountNum > b)
                    then (s1\<lparr>sendError := ''Insufficient balance''\<rparr>, w)
                    else
                      (let s2 = s1\<lparr>sending := True\<rparr> in
                       case SystemProgram_transfer P pk recipientPubkey
                              \<lfloor>ieee_times P amountNum (of_nat LAMPORTS_PER_SOL)\<rfloor> of
                         Inl e \<Rightarrow> (s2\<lparr>sendError := failure_text e, sending := False\<rparr>, w)
                       | Inr transfer \<Rightarrow>
                           (let transaction = [transfer];
                                w1 = await conn (SendTransaction transaction) w
                            in case send transaction of
                                 Inl e \<Rightarrow>
                                   (s2\<lparr>sendError := failure_text e, sending := False\<rparr>, w1)
                               | Inr sg \<Rightarrow>
                                   (let w2 = await conn (ConfirmTransaction sg) w1
                                    in case confirmTransaction conn sg of
                                         Inl e \<Rightarrow>
                                           (s2\<lparr>sendError := failure_text e,
                                               sending := False\<rparr>, w2)
                                       | Inr u \<Rightarrow>
                                           (let s3 = s2\<lparr>sendSuccess :=
                                                          ''Transaction sent successfully!'',
                                                        recipient := [], amount := []\<rparr>
                                            in case fetchBalance conn P wal True s3 w2 of
                                                 (s4, w3) \<Rightarrow>
                                                   (s4\<lparr>sending := False\<rparr>, w3)))))))
      | _ \<Rightarrow> (s, w))"

section \<open>The hook useOwnedNFTs: the ownership resolver\<close>

text \<open>
  Modelled from the spec: the type \<^verbatim>\<open>NFTMetadata\<close> and the functions \<^verbatim>\<open>getListingPDA\<close>
  and \<^verbatim>\<open>fetchNFTMetadataFromChain\<close> are imported from the program library, which is not
  among the sources. The metadata has a name, an image reference, a description, a symbol,
  an attribute list and an optional collection reference; the derivation of the listing
  address is a pure function of the mint; the metadata fetch may fail per call, or find
  nothing. Both functions are parameters of the model.
\<close>

record NFTMetadata =
  meta_name :: string
  meta_image :: string
  meta_description :: "string option"
  meta_symbol :: "string option"
  meta_attributes :: "(string \<times> string) list option"
  meta_collection :: "string option"

record program =
  getListingPDA :: "PublicKey \<Rightarrow> PublicKey"
  fetchNFTMetadataFromChain :: "connection \<Rightarrow> PublicKey \<Rightarrow> exn + NFTMetadata option"

record OwnedNFT =
  mint :: PublicKey
  tokenAccount :: PublicKey
  nft_amount :: "rat option"
  metadata :: "NFTMetadata option"
  isListed :: bool

record OwnedNFTs =
  nfts :: "OwnedNFT list"
  loading :: bool
  error :: "string option"

definition nftAccounts :: "TokenAccount list \<Rightarrow> OwnedNFT list" where
  "nftAccounts tokenAccounts =
     map (\<lambda>a. \<lparr>mint = info_mint a, tokenAccount = pubkey a, nft_amount = uiAmount a,
               metadata = None, isListed = False\<rparr>)
       (filter (\<lambda>a. uiAmount a = Some 1 \<and> decimals a = 0) tokenAccounts)"

text \<open>
  The body of the asynchronous function mapped over \<open>nftAccounts\<close>: both lookups are
  inside one \<^verbatim>\<open>try\<close>, and the \<^verbatim>\<open>catch\<close> returns the NFT unlisted and without metadata.
\<close>

definition withListingStatus :: "connection \<Rightarrow> program \<Rightarrow> OwnedNFT \<Rightarrow> OwnedNFT" where
  "withListingStatus conn prog nft =
     (let listingPDA = getListingPDA prog (mint nft) in
      case getAccountInfo conn listingPDA of
        Inl e \<Rightarrow> nft\<lparr>isListed := False, metadata := None\<rparr>
      | Inr listingAccount \<Rightarrow>
          (case fetchNFTMetadataFromChain prog conn (mint nft) of
             Inl e \<Rightarrow> nft\<lparr>isListed := False, metadata := None\<rparr>
           | Inr md \<Rightarrow> nft\<lparr>isListed := (listingAccount \<noteq> None), metadata := md\<rparr>))"

text \<open>
  \<^verbatim>\<open>Promise.all\<close> over promises that all resolve: promise \<open>i\<close> settles at time
  \<open>finish i\<close>, and on settling writes its value into slot \<open>i\<close> of the result; the
  promises are served in the order of their settling times. The result is there once
  every slot is filled.
\<close>

definition Promise_all :: "(nat \<Rightarrow> nat) \<Rightarrow> 'a list \<Rightarrow> 'a list option" where
  "Promise_all finish ps =
     those (fold (\<lambda>i slots. slots[i := Some (ps ! i)])
              (sort_key finish [0..<length ps])
              (replicate (length ps) None))"

definition refetch ::
  "connection \<Rightarrow> program \<Rightarrow> (nat \<Rightarrow> nat) \<Rightarrow> wallet \<Rightarrow> OwnedNFTs \<Rightarrow> OwnedNFTs" where
  "refetch conn prog finish wal st =
     (case publicKey wal of
        None \<Rightarrow> st\<lparr>nfts := [], loading := False\<rparr>
      | Some pk \<Rightarrow>
          (let st1 = st\<lparr>loading := True, error := None\<rparr> in
           case getParsedTokenAccountsByOwner conn pk of
             Inl e \<Rightarrow> st1\<lparr>error := Some ''Failed to fetch NFTs'', loading := False\<rparr>
           | Inr tokenAccounts \<Rightarrow>
               (case Promise_all finish
                       (map (withListingStatus conn prog) (nftAccounts tokenAccounts)) of
                  None \<Rightarrow> st1
                | Some nftsWithListingStatus \<Rightarrow>
                    st1\<lparr>nfts := nftsWithListingStatus, loading := False\<rparr>)))"

text \<open>
  \<^verbatim>\<open>useNFTs\<close> turns the hook's NFTs into the records the pages show; \<^verbatim>\<open>a || b\<close> on
  strings takes \<open>b\<close> when \<open>a\<close> is missing or empty. \<open>PLACEHOLDER_IMAGE\<close> is a constant of
  the application that is not among the sources, a parameter here.
\<close>

definition useNFTs :: "string \<Rightarrow> OwnedNFT list \<Rightarrow> NFT list" where
  "useNFTs PLACEHOLDER_IMAGE ns =
     map (\<lambda>nft.
       \<lparr>nft_mint = toString (mint nft),
        nft_name =
          (case metadata nft of
             None \<Rightarrow> ''NFT #'' @ take 4 (toString (mint nft))
           | Some m \<Rightarrow>
               if meta_name m \<noteq> [] then meta_name m
               else ''NFT #'' @ take 4 (toString (mint nft))),
        nft_image =
          (case metadata nft of
             None \<Rightarrow> PLACEHOLDER_IMAGE
           | Some m \<Rightarrow> if meta_image m \<noteq> [] then meta_image m else PLACEHOLDER_IMAGE),
        nft_description = Option.bind (metadata nft) meta_description,
        nft_symbol = Option.bind (metadata nft) meta_symbol,
        nft_attributes = Option.bind (metadata nft) meta_attributes,
        nft_collection = Option.bind (metadata nft) meta_collection,
        nft_isListed = isListed nft\<rparr>) ns"

section \<open>Example worlds\<close>

text \<open>
  A wallet \<open>W\<close> with three token accounts: two hold one unit of a mint without decimals,
  the third holds 1000 units of a mint with six decimals. Both NFTs are listed; the
  metadata fetch for the first throws. The platform's JSON functions are given by the
  table of the few envelopes that occur; \<open>parseFloat\<close> gives the doubles nearest to 2.01
  and 0.3 as the rationals they are, and \<open>ieee_times\<close> their products with
  \<open>LAMPORTS_PER_SOL\<close> as IEEE 754 rounds them (the other products that occur are exact).
\<close>

definition wallet_W :: PublicKey where
  "wallet_W = PublicKey ''W''"

definition example_wallet :: wallet where
  "example_wallet = \<lparr>publicKey = Some wallet_W, sendTransaction = Some (\<lambda>tx. Inr ''sig1'')\<rparr>"

definition holdings_W :: "TokenAccount list" where
  "holdings_W =
     [\<lparr>pubkey = PublicKey ''T1'', info_mint = PublicKey ''M1'', uiAmount = Some 1, decimals = 0\<rparr>,
      \<lparr>pubkey = PublicKey ''T2'', info_mint = PublicKey ''M2'', uiAmount = Some 1, decimals = 0\<rparr>,
      \<lparr>pubkey = PublicKey ''T3'', info_mint = PublicKey ''M3'', uiAmount = Some 1000, decimals = 6\<rparr>]"

definition listing_account :: AccountInfo where
  "listing_account = \<lparr>owner = PublicKey ''marketplace'', account_lamports = 2000000\<rparr>"

definition example_connection :: connection where
  "example_connection =
     \<lparr>getBalance = (\<lambda>k. Inr 1000000000),
      getSignaturesForAddress = (\<lambda>k n. Inl (Error ''429 Too Many Requests'')),
      confirmTransaction = (\<lambda>sg. Inr ()),
      getParsedTokenAccountsByOwner = (\<lambda>k. Inr (if k = wallet_W then holdings_W else [])),
      getAccountInfo =
        (\<lambda>k. Inr (if k = PublicKey ''listing:M1'' \<or> k = PublicKey ''listing:M2''
                    then Some listing_account else None)),
      elapsed = (\<lambda>r. 250)\<rparr>"

definition pixel_metadata :: NFTMetadata where
  "pixel_metadata =
     \<lparr>meta_name = ''Pixel #2'', meta_image = ''https://arweave.net/p2'',
      meta_description = None, meta_symbol = Some ''PXL'', meta_attributes = None,
      meta_collection = None\<rparr>"

definition example_program :: program where
  "example_program =
     \<lparr>getListingPDA = (\<lambda>m. PublicKey (''listing:'' @ toString m)),
      fetchNFTMetadataFromChain =
        (\<lambda>c m. if m = PublicKey ''M1'' then Inl (Error ''fetch failed'')
                else Inr (Some pixel_metadata))\<rparr>"

definition example_resolution :: OwnedNFTs where
  "example_resolution =
     refetch example_connection example_program (\<lambda>i. 10 - i) example_wallet
       \<lparr>nfts = [], loading = True, error = None\<rparr>"

definition table_JSON :: "('a CachedData \<times> string) list \<Rightarrow> 'a JSON" where
  "table_JSON tab =
     \<lparr>stringify = (\<lambda>c. case map_of tab c of None \<Rightarrow> ''null'' | Some text \<Rightarrow> text),
      parse = (\<lambda>text. map_of (map (\<lambda>(c, text). (text, c)) tab) text)\<rparr>"

definition example_tx :: TransactionItem where
  "example_tx =
     \<lparr>signature = ''5Gh7'', tx_type = received, tx_amount = 1 / 2, tx_timestamp = 500,
      tx_status = success\<rparr>"

definition example_platform :: platform where
  \<open>example_platform =
     \<lparr>JSON_number = table_JSON
        [(\<lparr>data = 3 / 2, timestamp = 1000\<rparr>, ''{"data":1.5,"timestamp":1000}''),
         (\<lparr>data = 2, timestamp = 1000\<rparr>, ''{"data":2,"timestamp":1000}''),
         (\<lparr>data = 1, timestamp = 46250\<rparr>, ''{"data":1,"timestamp":46250}'')],
      JSON_txs = table_JSON
        [(\<lparr>data = [example_tx], timestamp = 1000\<rparr>,
          ''{"data":[{"signature":"5Gh7","type":"received","amount":0.5,"timestamp":500,"status":"success"}],"timestamp":1000}'')],
      parseFloat =
        (\<lambda>text. if text = ''5'' then Some 5
                else if text = ''-1'' then Some (- 1)
                else if text = ''2.01'' then Some (1131529406376837 / 562949953421312)
                else if text = ''0.3'' then Some (5404319552844595 / 18014398509481984)
                else if text = ''20000000000'' then Some 20000000000
                else None),
      isPublicKey = (\<lambda>text. text = ''R''),
      random = (\<lambda>i. 1 / 4),
      ieee_times =
        (\<lambda>x y. if x = 1131529406376837 / 562949953421312 \<and> y = 1000000000
                then 8430551039999999 / 4194304
               else if x = 5404319552844595 / 18014398509481984 \<and> y = 1000000000
                then 300000000
               else x * y),
      u64_error = (\<lambda>n. Error ''u64 out of range'')\<rparr>\<close>

definition example_world :: world where
  "example_world =
     \<lparr>window = Some \<lparr>items = Map.empty, getItem_throws = False, setItem_throws = False\<rparr>,
      now = 1000, requests = [], draws = 0\<rparr>"

definition stale_world :: world where
  \<open>stale_world =
     \<lparr>window = Some
        \<lparr>items = [''pixelmart_wallet_balance_W'' \<mapsto> ''{"data":2,"timestamp":1000}''],
         getItem_throws = False, setItem_throws = False\<rparr>,
      now = 46000, requests = [], draws = 0\<rparr>\<close>

definition example_sheet :: WalletSheet where
  "example_sheet =
     \<lparr>balance = None, loadingBalance = False, transactions = [], loadingTxs = False,
      recipient = ''R'', amount = ''5'', sending = False, sendError = [], sendSuccess = []\<rparr>"

definition offline_connection :: connection where
  "offline_connection =
     example_connection\<lparr>getBalance := (\<lambda>k. Inl (Error ''Network request failed''))\<rparr>"

definition example_listings :: "Listing list" where
  "example_listings =
     [\<lparr>listing_publicKey = PublicKey ''listing:M2'',
       account = \<lparr>seller = wallet_W, nftMint = PublicKey ''M2'', price = 5000000000\<rparr>\<rparr>,
      \<lparr>listing_publicKey = PublicKey ''listing:M1'',
       account = \<lparr>seller = PublicKey ''V'', nftMint = PublicKey ''M1'', price = 1\<rparr>\<rparr>]"

definition example_page_nfts :: "NFT list" where
  "example_page_nfts = useNFTs ''/placeholder.png'' (nfts example_resolution)"

section \<open>Properties of the ownership resolver\<close>

text \<open>
  \<open>Promise_all\<close> returns the values of the promises in the order of the promises,
  whatever their settling times.
\<close>

lemma fold_slots:
  "set js \<subseteq> {0..<length slots} \<Longrightarrow> length ps = length slots \<Longrightarrow>
   fold (\<lambda>i sl. sl[i := Some (ps ! i)]) js slots =
     map (\<lambda>j. if j \<in> set js then Some (ps ! j) else slots ! j) [0..<length slots]"
proof (induction js arbitrary: slots)
  case Nil
  then show ?case by (simp add: map_nth)
next
  case (Cons i js)
  have "fold (\<lambda>i sl. sl[i := Some (ps ! i)]) (i # js) slots =
        fold (\<lambda>i sl. sl[i := Some (ps ! i)]) js (slots[i := Some (ps ! i)])"
    by simp
  also have "\<dots> = map (\<lambda>j. if j \<in> set js then Some (ps ! j) else (slots[i := Some (ps ! i)]) ! j)
                      [0..<length (slots[i := Some (ps ! i)])]"
    using Cons.prems by (intro Cons.IH) auto
  also have "\<dots> = map (\<lambda>j. if j \<in> set (i # js) then Some (ps ! j) else slots ! j) [0..<length slots]"
    by (auto simp: nth_list_update)
  finally show ?case .
qed

lemma those_map_Some: "those (map Some xs) = Some xs"
  by (induction xs) auto

lemma Promise_all_positional: "Promise_all finish ps = Some ps"
proof -
  let ?js = "sort_key finish [0..<length ps]"
  let ?init = "replicate (length ps) (None :: 'a option)"
  have sub: "set ?js \<subseteq> {0..<length ?init}" and len: "length ps = length ?init"
    by auto
  have "fold (\<lambda>i sl. sl[i := Some (ps ! i)]) ?js ?init =
        map (\<lambda>j. if j \<in> set ?js then Some (ps ! j) else ?init ! j) [0..<length ?init]"
    by (rule fold_slots [OF sub len])
  also have "\<dots> = map (\<lambda>j. Some (ps ! j)) [0..<length ps]"
    by auto
  also have "\<dots> = map Some (map (\<lambda>j. ps ! j) [0..<length ps])"
    by simp
  also have "\<dots> = map Some ps"
    by (simp only: map_nth)
  finally show ?thesis
    by (simp add: Promise_all_def those_map_Some)
qed

lemma refetch_resolved:
  assumes "publicKey wal = Some pk"
    and "getParsedTokenAccountsByOwner conn pk = Inr tokenAccounts"
  shows "refetch conn prog finish wal st =
           st\<lparr>loading := False, error := None,
              nfts := map (withListingStatus conn prog) (nftAccounts tokenAccounts)\<rparr>"
  using assms by (simp add: refetch_def Promise_all_positional)

lemma withListingStatus_same_holding:
  "mint (withListingStatus conn prog nft) = mint nft"
  "tokenAccount (withListingStatus conn prog nft) = tokenAccount nft"
  "nft_amount (withListingStatus conn prog nft) = nft_amount nft"
  by (simp_all add: withListingStatus_def Let_def split: sum.splits)

lemma withListingStatus_isListed:
  "isListed (withListingStatus conn prog nft) \<longleftrightarrow>
     (\<exists>a. getAccountInfo conn (getListingPDA prog (mint nft)) = Inr (Some a)) \<and>
     (\<exists>md. fetchNFTMetadataFromChain prog conn (mint nft) = Inr md)"
  by (auto simp: withListingStatus_def Let_def split: sum.splits)

text \<open>
  Claim C2. When the enumeration of the wallet's token accounts succeeds, the resolver
  keeps exactly the holdings whose quantity is 1 and whose decimals are 0: its output
  lists the mints of those holdings, one entry each, and every entry is such a holding
  (its token account, its mint, quantity 1). A holding of any other quantity or
  decimals has no entry.
\<close>

theorem refetch_unit_holdings:
  assumes "publicKey wal = Some pk"
    and "getParsedTokenAccountsByOwner conn pk = Inr tokenAccounts"
  shows "map mint (nfts (refetch conn prog finish wal st)) =
           map info_mint (filter (\<lambda>a. uiAmount a = Some 1 \<and> decimals a = 0) tokenAccounts)
       \<and> (\<lambda>n. (tokenAccount n, mint n, nft_amount n)) ` set (nfts (refetch conn prog finish wal st)) =
           (\<lambda>a. (pubkey a, info_mint a, Some 1)) `
             {a \<in> set tokenAccounts. uiAmount a = Some 1 \<and> decimals a = 0}"
proof -
  have out: "nfts (refetch conn prog finish wal st) =
        map (withListingStatus conn prog) (nftAccounts tokenAccounts)"
    by (simp add: refetch_resolved [OF assms])
  have "map mint (map (withListingStatus conn prog) (nftAccounts tokenAccounts)) =
        map info_mint (filter (\<lambda>a. uiAmount a = Some 1 \<and> decimals a = 0) tokenAccounts)"
    by (simp add: nftAccounts_def withListingStatus_same_holding comp_def)
  moreover have "(\<lambda>n. (tokenAccount n, mint n, nft_amount n)) `
          set (map (withListingStatus conn prog) (nftAccounts tokenAccounts)) =
        (\<lambda>a. (pubkey a, info_mint a, Some 1)) `
          {a \<in> set tokenAccounts. uiAmount a = Some 1 \<and> decimals a = 0}"
    by (auto simp: nftAccounts_def withListingStatus_same_holding image_iff)
  ultimately show ?thesis
    by (simp only: out)
qed

theorem refetch_unit_holdings_witness:
  "publicKey example_wallet = Some wallet_W
   \<and> getParsedTokenAccountsByOwner example_connection wallet_W = Inr holdings_W
   \<and> map mint (nfts example_resolution) = [PublicKey ''M1'', PublicKey ''M2'']
   \<and> length (nfts example_resolution) = 2"
proof -
  have h1: "publicKey example_wallet = Some wallet_W"
    by (simp add: example_wallet_def)
  have h2: "getParsedTokenAccountsByOwner example_connection wallet_W = Inr holdings_W"
    by (simp add: example_connection_def)
  have "map mint (nfts example_resolution) =
        map info_mint (filter (\<lambda>a. uiAmount a = Some 1 \<and> decimals a = 0) holdings_W)"
    unfolding example_resolution_def using refetch_unit_holdings [OF h1 h2] by blast
  then have m: "map mint (nfts example_resolution) = [PublicKey ''M1'', PublicKey ''M2'']"
    by (simp add: holdings_W_def)
  from arg_cong [OF m, of length] have "length (nfts example_resolution) = 2"
    by simp
  with h1 h2 m show ?thesis
    by simp
qed

text \<open>
  Claim C1, as amended. For every NFT in the resolver's output, the listed flag is true
  exactly when the lookup of the account at the listing address derived from its mint
  returned a non-null account and the metadata fetch for that mint did not throw.
  When either per-asset lookup throws, the flag is false, whatever the account is.
\<close>

theorem refetch_listed_flag:
  assumes "publicKey wal = Some pk"
    and "getParsedTokenAccountsByOwner conn pk = Inr tokenAccounts"
    and "n \<in> set (nfts (refetch conn prog finish wal st))"
  shows "isListed n \<longleftrightarrow>
           (\<exists>a. getAccountInfo conn (getListingPDA prog (mint n)) = Inr (Some a)) \<and>
           (\<exists>md. fetchNFTMetadataFromChain prog conn (mint n) = Inr md)"
proof -
  from assms obtain nft where n: "n = withListingStatus conn prog nft"
    by (auto simp: refetch_resolved)
  show ?thesis
    unfolding n withListingStatus_same_holding by (rule withListingStatus_isListed)
qed

theorem refetch_listed_flag_witness:
  "nfts example_resolution ! 1 \<in> set (nfts example_resolution)
   \<and> mint (nfts example_resolution ! 1) = PublicKey ''M2''
   \<and> isListed (nfts example_resolution ! 1)
   \<and> getAccountInfo example_connection (getListingPDA example_program (PublicKey ''M2'')) =
       Inr (Some listing_account)
   \<and> fetchNFTMetadataFromChain example_program example_connection (PublicKey ''M2'') =
       Inr (Some pixel_metadata)"
proof -
  have h1: "publicKey example_wallet = Some wallet_W"
    by (simp add: example_wallet_def)
  have h2: "getParsedTokenAccountsByOwner example_connection wallet_W = Inr holdings_W"
    by (simp add: example_connection_def)
  have out: "nfts example_resolution =
      map (withListingStatus example_connection example_program) (nftAccounts holdings_W)"
    unfolding example_resolution_def refetch_resolved [OF h1 h2] by simp
  have len: "length (nfts example_resolution) = 2"
    unfolding out by (simp add: nftAccounts_def holdings_W_def)
  then have h3: "nfts example_resolution ! 1 \<in> set (nfts example_resolution)"
    by simp
  have m: "mint (nfts example_resolution ! 1) = PublicKey ''M2''"
    unfolding out by (simp add: nftAccounts_def holdings_W_def withListingStatus_same_holding)
  have a: "getAccountInfo example_connection (getListingPDA example_program (PublicKey ''M2'')) =
       Inr (Some listing_account)"
    by (simp add: example_connection_def example_program_def)
  have f: "fetchNFTMetadataFromChain example_program example_connection (PublicKey ''M2'') =
       Inr (Some pixel_metadata)"
    by (simp add: example_program_def)
  have "isListed (nfts example_resolution ! 1)"
    using refetch_listed_flag [OF h1 h2 h3 [unfolded example_resolution_def]] a f
    unfolding example_resolution_def [symmetric] m by simp
  with h3 m a f show ?thesis
    by simp
qed

text \<open>
  The claim as first stated, "listed is true if and only if the account at the listing
  address is non-null, also when a per-asset lookup throws", fails in the example: the
  listing account of mint \<open>M1\<close> exists, the metadata fetch for \<open>M1\<close> throws, and the
  entry of \<open>M1\<close> is not listed.
\<close>

theorem listed_flag_counterexample:
  "mint (hd (nfts example_resolution)) = PublicKey ''M1''
   \<and> getAccountInfo example_connection (getListingPDA example_program (PublicKey ''M1'')) =
       Inr (Some listing_account)
   \<and> \<not> isListed (hd (nfts example_resolution))"
proof -
  have h1: "publicKey example_wallet = Some wallet_W"
    by (simp add: example_wallet_def)
  have h2: "getParsedTokenAccountsByOwner example_connection wallet_W = Inr holdings_W"
    by (simp add: example_connection_def)
  show ?thesis
    unfolding example_resolution_def refetch_resolved [OF h1 h2]
    by (simp add: nftAccounts_def withListingStatus_def holdings_W_def example_connection_def
        example_program_def)
qed

text \<open>
  Claim C7. The output of the resolver is the list of per-holding results in the order
  of the enumeration: position by position it has the token account and mint of the
  retained holdings, one entry for each, and it is the same for any two assignments
  \<open>finish\<close> and \<open>finish'\<close> of settling times to the concurrent lookups.
\<close>

theorem refetch_positional:
  assumes "publicKey wal = Some pk"
    and "getParsedTokenAccountsByOwner conn pk = Inr tokenAccounts"
  shows "nfts (refetch conn prog finish wal st) =
           map (withListingStatus conn prog) (nftAccounts tokenAccounts)
       \<and> map (\<lambda>n. (tokenAccount n, mint n)) (nfts (refetch conn prog finish wal st)) =
           map (\<lambda>a. (pubkey a, info_mint a))
             (filter (\<lambda>a. uiAmount a = Some 1 \<and> decimals a = 0) tokenAccounts)
       \<and> nfts (refetch conn prog finish' wal st) = nfts (refetch conn prog finish wal st)"
proof -
  let ?retained = "filter (\<lambda>a. uiAmount a = Some 1 \<and> decimals a = 0) tokenAccounts"
  have out: "nfts (refetch conn prog f wal st) =
        map (withListingStatus conn prog) (nftAccounts tokenAccounts)" for f
    by (simp add: refetch_resolved [OF assms])
  have "map (\<lambda>n. (tokenAccount n, mint n))
          (map (withListingStatus conn prog) (nftAccounts tokenAccounts)) =
        map (\<lambda>n. (tokenAccount n, mint n)) (nftAccounts tokenAccounts)"
    by (simp add: withListingStatus_same_holding)
  also have "\<dots> = map (\<lambda>a. (pubkey a, info_mint a)) ?retained"
    by (simp add: nftAccounts_def comp_def)
  finally show ?thesis
    by (simp only: out simp_thms)
qed

theorem refetch_positional_witness:
  "map (\<lambda>n. (tokenAccount n, mint n)) (nfts example_resolution) =
     [(PublicKey ''T1'', PublicKey ''M1''), (PublicKey ''T2'', PublicKey ''M2'')]
   \<and> nfts (refetch example_connection example_program (\<lambda>i. i) example_wallet
        \<lparr>nfts = [], loading = True, error = None\<rparr>) = nfts example_resolution"
proof -
  have h1: "publicKey example_wallet = Some wallet_W"
    by (simp add: example_wallet_def)
  have h2: "getParsedTokenAccountsByOwner example_connection wallet_W = Inr holdings_W"
    by (simp add: example_connection_def)
  show ?thesis
    unfolding example_resolution_def
    using refetch_positional [OF h1 h2, of example_program "\<lambda>i. 10 - i"
        "\<lparr>nfts = [], loading = True, error = None\<rparr>" "\<lambda>i. i"]
    by (simp add: holdings_W_def nftAccounts_def withListingStatus_same_holding)
qed

text \<open>
  Claim C6. If the metadata fetch for the mint of a retained holding throws, the call
  still completes without an error (\<open>error\<close> is cleared, \<open>loading\<close> is false), the output
  has one entry per retained holding, among them the entry of that holding with its
  metadata absent, and the entries of all other mints are what they are under any other
  outcome \<open>r\<close> of that one fetch.
\<close>

theorem refetch_metadata_failure:
  assumes "publicKey wal = Some pk"
    and "getParsedTokenAccountsByOwner conn pk = Inr tokenAccounts"
    and "a \<in> set tokenAccounts" and "uiAmount a = Some 1" and "decimals a = 0"
    and "fetchNFTMetadataFromChain prog conn (info_mint a) = Inl e"
  shows "error (refetch conn prog finish wal st) = None
       \<and> loading (refetch conn prog finish wal st) = False
       \<and> length (nfts (refetch conn prog finish wal st)) =
           length (filter (\<lambda>a. uiAmount a = Some 1 \<and> decimals a = 0) tokenAccounts)
       \<and> \<lparr>mint = info_mint a, tokenAccount = pubkey a, nft_amount = Some 1,
           metadata = None, isListed = False\<rparr> \<in> set (nfts (refetch conn prog finish wal st))
       \<and> filter (\<lambda>n. mint n \<noteq> info_mint a)
           (nfts (refetch conn
              (prog\<lparr>fetchNFTMetadataFromChain :=
                 (\<lambda>c k. if k = info_mint a then r else fetchNFTMetadataFromChain prog c k)\<rparr>)
              finish wal st)) =
         filter (\<lambda>n. mint n \<noteq> info_mint a) (nfts (refetch conn prog finish wal st))"
proof -
  let ?prog' = "prog\<lparr>fetchNFTMetadataFromChain :=
                 (\<lambda>c k. if k = info_mint a then r else fetchNFTMetadataFromChain prog c k)\<rparr>"
  have entry: "withListingStatus conn prog
        \<lparr>mint = info_mint a, tokenAccount = pubkey a, nft_amount = uiAmount a,
         metadata = None, isListed = False\<rparr> =
        \<lparr>mint = info_mint a, tokenAccount = pubkey a, nft_amount = Some 1,
         metadata = None, isListed = False\<rparr>"
    using assms(4,6) by (simp add: withListingStatus_def Let_def split: sum.splits)
  have "\<lparr>mint = info_mint a, tokenAccount = pubkey a, nft_amount = uiAmount a,
         metadata = None, isListed = False\<rparr> \<in> set (nftAccounts tokenAccounts)"
    using assms(3,4,5) by (auto simp: nftAccounts_def)
  then have mem: "\<lparr>mint = info_mint a, tokenAccount = pubkey a, nft_amount = Some 1,
         metadata = None, isListed = False\<rparr>
        \<in> set (map (withListingStatus conn prog) (nftAccounts tokenAccounts))"
    using entry by (metis image_eqI set_map)
  have others: "mint nft \<noteq> info_mint a \<Longrightarrow>
        withListingStatus conn ?prog' nft = withListingStatus conn prog nft" for nft
    by (simp add: withListingStatus_def split: sum.splits)
  have rest: "filter (\<lambda>n. mint n \<noteq> info_mint a) (map (withListingStatus conn ?prog') ns) =
        filter (\<lambda>n. mint n \<noteq> info_mint a) (map (withListingStatus conn prog) ns)" for ns
    by (induction ns) (auto simp: others withListingStatus_same_holding)
  have out: "refetch conn prog finish wal st =
        st\<lparr>loading := False, error := None,
           nfts := map (withListingStatus conn prog) (nftAccounts tokenAccounts)\<rparr>"
    by (rule refetch_resolved [OF assms(1,2)])
  have out': "refetch conn ?prog' finish wal st =
        st\<lparr>loading := False, error := None,
           nfts := map (withListingStatus conn ?prog') (nftAccounts tokenAccounts)\<rparr>"
    by (rule refetch_resolved [OF assms(1,2)])
  have len: "length (map (withListingStatus conn prog) (nftAccounts tokenAccounts)) =
        length (filter (\<lambda>a. uiAmount a = Some 1 \<and> decimals a = 0) tokenAccounts)"
    by (simp add: nftAccounts_def)
  show ?thesis
    unfolding out out' using mem len rest by simp
qed

theorem refetch_metadata_failure_witness:
  "fetchNFTMetadataFromChain example_program example_connection (PublicKey ''M1'') =
     Inl (Error ''fetch failed'')
   \<and> error example_resolution = None
   \<and> length (nfts example_resolution) = 2
   \<and> \<lparr>mint = PublicKey ''M1'', tokenAccount = PublicKey ''T1'', nft_amount = Some 1,
       metadata = None, isListed = False\<rparr> \<in> set (nfts example_resolution)"
proof -
  have h1: "publicKey example_wallet = Some wallet_W"
    by (simp add: example_wallet_def)
  have h2: "getParsedTokenAccountsByOwner example_connection wallet_W = Inr holdings_W"
    by (simp add: example_connection_def)
  let ?a = "\<lparr>pubkey = PublicKey ''T1'', info_mint = PublicKey ''M1'', uiAmount = Some 1,
             decimals = 0\<rparr>"
  have h3: "?a \<in> set holdings_W"
    by (simp add: holdings_W_def)
  have h4: "uiAmount ?a = Some 1" and h5: "decimals ?a = 0"
    by simp_all
  have h6: "fetchNFTMetadataFromChain example_program example_connection (info_mint ?a) =
       Inl (Error ''fetch failed'')"
    by (simp add: example_program_def)
  show ?thesis
    unfolding example_resolution_def
    using h6 refetch_metadata_failure [OF h1 h2 h3 h4 h5 h6, of "\<lambda>i. 10 - i"
        "\<lparr>nfts = [], loading = True, error = None\<rparr>" "Inr None"]
    by (simp add: holdings_W_def)
qed

section \<open>Properties of the profile page\<close>

text \<open>
  Claim C3. With a wallet \<open>pk\<close> connected, an owned NFT is in the "available to list"
  set exactly when its mint is not the mint of a current listing whose seller is \<open>pk\<close>.
  The set keeps the order of the owned NFTs, and a listing of mint \<open>M\<close> by \<open>pk\<close> removes
  every NFT of mint \<open>M\<close> from it.
\<close>

theorem ownedNotListed_iff:
  "n \<in> set (ownedNotListed (Some pk) listings owned) \<longleftrightarrow>
     n \<in> set owned \<and>
     \<not> (\<exists>l \<in> set listings.
           seller (account l) = pk \<and> toString (nftMint (account l)) = nft_mint n)"
proof -
  have "nft_mint n \<in> listedMints (Some pk) listings \<longleftrightarrow>
        (\<exists>l \<in> set listings.
           seller (account l) = pk \<and> toString (nftMint (account l)) = nft_mint n)"
    by (auto simp: listedMints_def myListings_def equals_def image_iff)
  then show ?thesis
    by (simp add: ownedNotListed_def)
qed

lemma nft_mint_useNFTs: "map nft_mint (useNFTs img ns) = map toString (map mint ns)"
  by (simp add: useNFTs_def comp_def)

text \<open>
  In the example the wallet \<open>W\<close> has listed \<open>M2\<close>, and \<open>M1\<close> is listed by another seller:
  of the two NFTs the hook resolves for \<open>W\<close>, only \<open>M1\<close> is available to list.
\<close>

theorem ownedNotListed_iff_witness:
  "map nft_mint example_page_nfts = [''M1'', ''M2'']
   \<and> map nft_mint (ownedNotListed (Some wallet_W) example_listings example_page_nfts) = [''M1'']"
proof -
  have h1: "publicKey example_wallet = Some wallet_W"
    by (simp add: example_wallet_def)
  have h2: "getParsedTokenAccountsByOwner example_connection wallet_W = Inr holdings_W"
    by (simp add: example_connection_def)
  have "map mint (nfts example_resolution) = [PublicKey ''M1'', PublicKey ''M2'']"
    unfolding example_resolution_def refetch_resolved [OF h1 h2]
    by (simp add: nftAccounts_def holdings_W_def withListingStatus_same_holding)
  then have "map toString (map mint (nfts example_resolution)) = [''M1'', ''M2'']"
    by simp
  then have page: "map nft_mint example_page_nfts = [''M1'', ''M2'']"
    by (simp add: example_page_nfts_def nft_mint_useNFTs)
  then obtain n1 n2 where ns: "example_page_nfts = [n1, n2]"
    and m: "nft_mint n1 = ''M1''" "nft_mint n2 = ''M2''"
    by auto
  have "n1 \<in> set (ownedNotListed (Some wallet_W) example_listings example_page_nfts)"
    and "n2 \<notin> set (ownedNotListed (Some wallet_W) example_listings example_page_nfts)"
    unfolding ownedNotListed_iff using m
    by (auto simp: ns example_listings_def wallet_W_def)
  then have "ownedNotListed (Some wallet_W) example_listings example_page_nfts = [n1]"
    by (simp add: ownedNotListed_def ns split: if_splits)
  with page m show ?thesis
    by simp
qed

section \<open>Properties of the wallet sheet\<close>

lemma getCache_setCache:
  assumes "window w = Some ls" and "\<not> getItem_throws ls" and "\<not> setItem_throws ls"
    and "stringify J \<lparr>data = v, timestamp = now w\<rparr> \<noteq> []"
    and "parse J (stringify J \<lparr>data = v, timestamp = now w\<rparr>) = Some \<lparr>data = v, timestamp = now w\<rparr>"
  shows "getCache J ((setCache J key v w)\<lparr>now := t\<rparr>) key = Some v"
    and "isCacheValid J ((setCache J key v w)\<lparr>now := t\<rparr>) key ttl \<longleftrightarrow> t - now w < ttl"
  using assms by (simp_all add: getCache_def setCache_def isCacheValid_def getItem_def setItem_def)

text \<open>
  Claim C4. Cache round trip, for both kinds of cached data (balance, transaction list).
  In a world whose storage accepts the write and the read, and for a value that
  \<^verbatim>\<open>JSON.stringify\<close> turns into a text that \<^verbatim>\<open>JSON.parse\<close> turns back into the same
  envelope: after \<open>setCache\<close> of the value, a read at a time \<open>t\<close> less than the TTL after
  the write gets the value back from \<open>getCache\<close>, and the non-forced fetch shows it and
  returns the world as it found it: no request is issued, nothing is written.
\<close>

theorem cache_round_trip:
  assumes "publicKey wal = Some pk"
    and "window w = Some ls" and "\<not> getItem_throws ls" and "\<not> setItem_throws ls"
    and "stringify (JSON_number P) \<lparr>data = v, timestamp = now w\<rparr> \<noteq> []"
    and "parse (JSON_number P) (stringify (JSON_number P) \<lparr>data = v, timestamp = now w\<rparr>) =
           Some \<lparr>data = v, timestamp = now w\<rparr>"
    and "stringify (JSON_txs P) \<lparr>data = txs, timestamp = now w\<rparr> \<noteq> []"
    and "parse (JSON_txs P) (stringify (JSON_txs P) \<lparr>data = txs, timestamp = now w\<rparr>) =
           Some \<lparr>data = txs, timestamp = now w\<rparr>"
    and "t - now w < BALANCE_CACHE_TTL" and "t' - now w < TX_CACHE_TTL"
  shows "(let w' = (setCache (JSON_number P) (balanceCacheKey (Some pk)) v w)\<lparr>now := t\<rparr> in
            getCache (JSON_number P) w' (balanceCacheKey (Some pk)) = Some v
          \<and> fetchBalance conn P wal False s w' = (s\<lparr>balance := Some v\<rparr>, w'))
       \<and> (let w' = (setCache (JSON_txs P) (txCacheKey (Some pk)) txs w)\<lparr>now := t'\<rparr> in
            getCache (JSON_txs P) w' (txCacheKey (Some pk)) = Some txs
          \<and> fetchTransactions conn P wal False s w' = (s\<lparr>transactions := txs\<rparr>, w'))"
  using assms
  by (simp add: Let_def fetchBalance_def fetchTransactions_def getCache_setCache)

theorem cache_round_trip_witness:
  \<open>fetchBalance offline_connection example_platform example_wallet False example_sheet
      ((setCache (JSON_number example_platform) ''balance_W'' (3 / 2) example_world)\<lparr>now := 11000\<rparr>) =
     (example_sheet\<lparr>balance := Some (3 / 2)\<rparr>,
      (setCache (JSON_number example_platform) ''balance_W'' (3 / 2) example_world)\<lparr>now := 11000\<rparr>)
   \<and> fetchTransactions offline_connection example_platform example_wallet False example_sheet
      ((setCache (JSON_txs example_platform) ''txs_W'' [example_tx] example_world)\<lparr>now := 41000\<rparr>) =
     (example_sheet\<lparr>transactions := [example_tx]\<rparr>,
      (setCache (JSON_txs example_platform) ''txs_W'' [example_tx] example_world)\<lparr>now := 41000\<rparr>)
   \<and> 11000 - now example_world < BALANCE_CACHE_TTL
   \<and> 41000 - now example_world < TX_CACHE_TTL\<close>
proof -
  let ?ls = "\<lparr>items = Map.empty, getItem_throws = False, setItem_throws = False\<rparr>"
  have h1: "publicKey example_wallet = Some wallet_W"
    by (simp add: example_wallet_def)
  have h2: "window example_world = Some ?ls"
    and h3: "\<not> getItem_throws ?ls" and h4: "\<not> setItem_throws ?ls"
    by (simp_all add: example_world_def)
  have h5: "stringify (JSON_number example_platform) \<lparr>data = 3 / 2, timestamp = now example_world\<rparr> \<noteq> []"
    and h6: "parse (JSON_number example_platform)
        (stringify (JSON_number example_platform) \<lparr>data = 3 / 2, timestamp = now example_world\<rparr>) =
        Some \<lparr>data = 3 / 2, timestamp = now example_world\<rparr>"
    by (simp_all add: example_platform_def table_JSON_def example_world_def)
  have h7: "stringify (JSON_txs example_platform) \<lparr>data = [example_tx], timestamp = now example_world\<rparr> \<noteq> []"
    and h8: "parse (JSON_txs example_platform)
        (stringify (JSON_txs example_platform) \<lparr>data = [example_tx], timestamp = now example_world\<rparr>) =
        Some \<lparr>data = [example_tx], timestamp = now example_world\<rparr>"
    by (simp_all add: example_platform_def table_JSON_def example_world_def)
  have h9: "11000 - now example_world < BALANCE_CACHE_TTL"
    and h10: "41000 - now example_world < TX_CACHE_TTL"
    by (simp_all add: example_world_def BALANCE_CACHE_TTL_def TX_CACHE_TTL_def)
  have k: "balanceCacheKey (Some wallet_W) = ''balance_W''" "txCacheKey (Some wallet_W) = ''txs_W''"
    by (simp_all add: balanceCacheKey_def txCacheKey_def walletAddress_def wallet_W_def)
  from cache_round_trip [OF h1 h2 h3 h4 h5 h6 h7 h8 h9 h10, of offline_connection example_sheet]
  show ?thesis
    using h9 h10 unfolding k Let_def by blast
qed



text \<open>
  Claim C10. If the signature query is issued (forced, or no valid cache entry) and
  throws, \<open>fetchTransactions\<close> changes neither the displayed transactions nor the storage,
  whatever the balance query would answer: of the sheet only \<open>loadingTxs\<close> is reset, of
  the world only the request log and the clock move. By contrast, on any connection
  \<open>conn'\<close> whose balance query is issued and throws, \<open>fetchBalance\<close> sets the displayed
  balance to null; it leaves the storage alone too.
\<close>

theorem failed_history_fetch_keeps_state:
  assumes "publicKey wal = Some pk"
    and "forceRefresh \<or> \<not> isCacheValid (JSON_txs P) w (txCacheKey (Some pk)) TX_CACHE_TTL
           \<or> getCache (JSON_txs P) w (txCacheKey (Some pk)) = None"
    and "getSignaturesForAddress conn pk 10 = Inl e"
  shows "fetchTransactions conn P wal forceRefresh s w =
           (s\<lparr>loadingTxs := False\<rparr>,
            w\<lparr>requests := requests w @ [GetSignaturesForAddress pk 10],
              now := now w + int (elapsed conn (GetSignaturesForAddress pk 10))\<rparr>)
       \<and> ((force \<or> \<not> isCacheValid (JSON_number P) w' (balanceCacheKey (Some pk))
                        BALANCE_CACHE_TTL
              \<or> getCache (JSON_number P) w' (balanceCacheKey (Some pk)) = None)
            \<and> getBalance conn' pk = Inl e' \<longrightarrow>
            fetchBalance conn' P wal force s' w' =
              (s'\<lparr>loadingBalance := False, balance := None\<rparr>,
               w'\<lparr>requests := requests w' @ [GetBalance pk],
                  now := now w' + int (elapsed conn' (GetBalance pk))\<rparr>))"
proof -
  have history: "fetchTransactions conn P wal forceRefresh s w =
           (s\<lparr>loadingTxs := False\<rparr>,
            w\<lparr>requests := requests w @ [GetSignaturesForAddress pk 10],
              now := now w + int (elapsed conn (GetSignaturesForAddress pk 10))\<rparr>)"
    using assms by (auto simp: fetchTransactions_def await_def Let_def)
  have balance: "fetchBalance conn' P wal force s' w' =
              (s'\<lparr>loadingBalance := False, balance := None\<rparr>,
               w'\<lparr>requests := requests w' @ [GetBalance pk],
                  now := now w' + int (elapsed conn' (GetBalance pk))\<rparr>)"
    if "force \<or> \<not> isCacheValid (JSON_number P) w' (balanceCacheKey (Some pk)) BALANCE_CACHE_TTL
          \<or> getCache (JSON_number P) w' (balanceCacheKey (Some pk)) = None"
      and "getBalance conn' pk = Inl e'"
    using that assms(1) by (auto simp: fetchBalance_def await_def Let_def)
  from history balance show ?thesis
    by blast
qed

theorem failed_history_fetch_keeps_state_witness:
  "getSignaturesForAddress example_connection wallet_W 10 = Inl (Error ''429 Too Many Requests'')
   \<and> getBalance example_connection wallet_W = Inr 1000000000
   \<and> fetchTransactions example_connection example_platform example_wallet True
        (example_sheet\<lparr>balance := Some 2, transactions := [example_tx]\<rparr>) stale_world =
       (example_sheet\<lparr>balance := Some 2, transactions := [example_tx]\<rparr>,
        stale_world\<lparr>requests := [GetSignaturesForAddress wallet_W 10], now := 46250\<rparr>)
   \<and> getBalance offline_connection wallet_W = Inl (Error ''Network request failed'')
   \<and> fetchBalance offline_connection example_platform example_wallet False
        (example_sheet\<lparr>balance := Some 2, transactions := [example_tx]\<rparr>) stale_world =
       (example_sheet\<lparr>balance := None, transactions := [example_tx]\<rparr>,
        stale_world\<lparr>requests := [GetBalance wallet_W], now := 46250\<rparr>)"
proof -
  let ?s = "example_sheet\<lparr>balance := Some 2, transactions := [example_tx]\<rparr>"
  have h1: "publicKey example_wallet = Some wallet_W"
    by (simp add: example_wallet_def)
  have h2: "True \<or> \<not> isCacheValid (JSON_txs example_platform) stale_world
        (txCacheKey (Some wallet_W)) TX_CACHE_TTL
      \<or> getCache (JSON_txs example_platform) stale_world (txCacheKey (Some wallet_W)) = None"
    by simp
  have h3: "getSignaturesForAddress example_connection wallet_W 10 =
      Inl (Error ''429 Too Many Requests'')"
    by (simp add: example_connection_def)
  have g: "getBalance example_connection wallet_W = Inr 1000000000"
    by (simp add: example_connection_def)
  have "\<not> isCacheValid (JSON_number example_platform) stale_world
        (balanceCacheKey (Some wallet_W)) BALANCE_CACHE_TTL"
    by (simp add: isCacheValid_def stale_world_def getItem_def CACHE_KEY_PREFIX_def
        balanceCacheKey_def walletAddress_def wallet_W_def example_platform_def table_JSON_def
        BALANCE_CACHE_TTL_def)
  then have h4: "False \<or> \<not> isCacheValid (JSON_number example_platform) stale_world
        (balanceCacheKey (Some wallet_W)) BALANCE_CACHE_TTL
      \<or> getCache (JSON_number example_platform) stale_world (balanceCacheKey (Some wallet_W)) = None"
    by simp
  have h5: "getBalance offline_connection wallet_W = Inl (Error ''Network request failed'')"
    by (simp add: offline_connection_def)
  have el: "elapsed example_connection r = 250" "elapsed offline_connection r = 250" for r
    by (simp_all add: offline_connection_def example_connection_def)
  from failed_history_fetch_keeps_state [OF h1 h2 h3, of ?s False stale_world
      offline_connection "Error ''Network request failed''" ?s] h4 h5
  have "fetchTransactions example_connection example_platform example_wallet True ?s stale_world =
       (?s\<lparr>loadingTxs := False\<rparr>,
        stale_world\<lparr>requests := requests stale_world @ [GetSignaturesForAddress wallet_W 10],
          now := now stale_world + int (elapsed example_connection (GetSignaturesForAddress wallet_W 10))\<rparr>)"
    and "fetchBalance offline_connection example_platform example_wallet False ?s stale_world =
       (?s\<lparr>loadingBalance := False, balance := None\<rparr>,
        stale_world\<lparr>requests := requests stale_world @ [GetBalance wallet_W],
          now := now stale_world + int (elapsed offline_connection (GetBalance wallet_W))\<rparr>)"
    by blast+
  then show ?thesis
    using h3 h5 g by (simp add: el example_sheet_def stale_world_def)
qed

text \<open>
  Claim C8. With a wallet connected, if the recipient is not a public key, or the amount
  does not parse, or parses to a number that is not positive, \<open>handleSend\<close> only sets the
  error message (and clears the success message): the world is returned unchanged, so no
  request was issued and no time passed, and \<open>sending\<close> was never set.
\<close>

theorem handleSend_validation:
  assumes "publicKey wal = Some pk" and "sendTransaction wal = Some send"
    and "\<not> isPublicKey P (recipient s) \<or> parseFloat P (amount s) = None
           \<or> (\<exists>a. parseFloat P (amount s) = Some a \<and> a \<le> 0)"
  shows "handleSend conn P wal s w =
           (s\<lparr>sendError := (if isPublicKey P (recipient s) then ''Invalid amount''
                             else ''Invalid recipient address''),
              sendSuccess := []\<rparr>, w)"
  using assms
  by (auto simp: handleSend_def PublicKey_new_def Let_def)

theorem handleSend_validation_witness:
  "parseFloat example_platform (amount (example_sheet\<lparr>amount := ''-1''\<rparr>)) = Some (- 1)
   \<and> handleSend example_connection example_platform example_wallet
        (example_sheet\<lparr>amount := ''-1''\<rparr>) example_world =
       (example_sheet\<lparr>amount := ''-1'', sendError := ''Invalid amount''\<rparr>, example_world)"
proof -
  have h1: "publicKey example_wallet = Some wallet_W"
    and h2: "sendTransaction example_wallet = Some (\<lambda>tx. Inr ''sig1'')"
    by (simp_all add: example_wallet_def)
  have p: "parseFloat example_platform (amount (example_sheet\<lparr>amount := ''-1''\<rparr>)) = Some (- 1)"
    by (simp add: example_platform_def)
  then have h3: "\<not> isPublicKey example_platform (recipient (example_sheet\<lparr>amount := ''-1''\<rparr>))
      \<or> parseFloat example_platform (amount (example_sheet\<lparr>amount := ''-1''\<rparr>)) = None
      \<or> (\<exists>a. parseFloat example_platform (amount (example_sheet\<lparr>amount := ''-1''\<rparr>)) = Some a
            \<and> a \<le> 0)"
    by simp
  from handleSend_validation [OF h1 h2 h3, of example_connection example_world]
  show ?thesis
    using p by (simp add: example_sheet_def example_platform_def)
qed

text \<open>
  Claim C9, as amended. With a wallet connected and the balance state null, a recipient
  that is a public key and an amount that parses to a positive number pass validation,
  whatever the balance of the wallet on chain is. If the amount in lamports,
  \<^verbatim>\<open>Math.floor(amountNum * LAMPORTS_PER_SOL)\<close>, fits an unsigned 64-bit integer, the first
  request issued is the submission of a transfer of that many lamports from the wallet to
  the recipient. If it does not fit, building the transfer throws: the error is shown and
  no request is issued. With a known balance \<open>b\<close> below the amount, the same input is
  refused with "Insufficient balance" and no request.
\<close>

theorem handleSend_unknown_balance:
  assumes "publicKey wal = Some pk" and "sendTransaction wal = Some send"
    and "balance s = None"
    and "isPublicKey P (recipient s)"
    and "parseFloat P (amount s) = Some a" and "0 < a"
  shows "(0 \<le> \<lfloor>ieee_times P a 1000000000\<rfloor> \<and> \<lfloor>ieee_times P a 1000000000\<rfloor> < 2 ^ 64 \<longrightarrow>
            (\<exists>rest. requests (snd (handleSend conn P wal s w)) =
               requests w @
                 SendTransaction [\<lparr>fromPubkey = pk, toPubkey = PublicKey (recipient s),
                                   lamports = \<lfloor>ieee_times P a 1000000000\<rfloor>\<rparr>] # rest))
       \<and> (\<not> (0 \<le> \<lfloor>ieee_times P a 1000000000\<rfloor> \<and> \<lfloor>ieee_times P a 1000000000\<rfloor> < 2 ^ 64) \<longrightarrow>
            handleSend conn P wal s w =
              (s\<lparr>sendError := failure_text (u64_error P \<lfloor>ieee_times P a 1000000000\<rfloor>),
                 sendSuccess := [], sending := False\<rparr>, w))
       \<and> (b < a \<longrightarrow>
            handleSend conn P wal (s\<lparr>balance := Some b\<rparr>) w =
              (s\<lparr>balance := Some b, sendError := ''Insufficient balance'', sendSuccess := []\<rparr>, w))"
proof -
  let ?n = "\<lfloor>ieee_times P a 1000000000\<rfloor>"
  let ?t = "\<lparr>fromPubkey = pk, toPubkey = PublicKey (recipient s), lamports = ?n\<rparr>"
  have built: "SystemProgram_transfer P pk (PublicKey (recipient s)) ?n = Inr ?t"
    if "0 \<le> ?n \<and> ?n < 2 ^ 64"
    using that by (simp add: SystemProgram_transfer_def)
  have sent: "\<exists>rest. requests (snd (handleSend conn P wal s w)) =
               requests w @ SendTransaction [?t] # rest"
    if "0 \<le> ?n \<and> ?n < 2 ^ 64"
    using assms built [OF that]
    by (auto simp: handleSend_def PublicKey_new_def Let_def await_def LAMPORTS_PER_SOL_def
          fetchBalance_def setCache_def setItem_def
        split: sum.splits option.splits prod.splits)
  have refused: "handleSend conn P wal s w =
              (s\<lparr>sendError := failure_text (u64_error P ?n), sendSuccess := [],
                 sending := False\<rparr>, w)"
    if "\<not> (0 \<le> ?n \<and> ?n < 2 ^ 64)"
  proof -
    from that have "SystemProgram_transfer P pk (PublicKey (recipient s)) ?n =
        Inl (u64_error P ?n)"
      unfolding SystemProgram_transfer_def by (rule if_not_P)
    with assms show ?thesis
      by (simp add: handleSend_def PublicKey_new_def Let_def LAMPORTS_PER_SOL_def)
  qed
  have known: "handleSend conn P wal (s\<lparr>balance := Some b\<rparr>) w =
              (s\<lparr>balance := Some b, sendError := ''Insufficient balance'', sendSuccess := []\<rparr>, w)"
    if "b < a"
    using assms that by (simp add: handleSend_def PublicKey_new_def Let_def)
  from sent refused known show ?thesis
    by blast
qed

theorem handleSend_unknown_balance_witness:
  "balance (example_sheet\<lparr>amount := ''2.01''\<rparr>) = None
   \<and> parseFloat example_platform ''2.01'' = Some (1131529406376837 / 562949953421312)
   \<and> getBalance example_connection wallet_W = Inr (1 * LAMPORTS_PER_SOL)
   \<and> (\<exists>rest. requests (snd (handleSend example_connection example_platform example_wallet
          (example_sheet\<lparr>amount := ''2.01''\<rparr>) example_world)) =
        SendTransaction [\<lparr>fromPubkey = wallet_W, toPubkey = PublicKey ''R'',
                          lamports = 2009999999\<rparr>] # rest)
   \<and> handleSend example_connection example_platform example_wallet
        (example_sheet\<lparr>amount := ''2.01'', balance := Some 1\<rparr>) example_world =
       (example_sheet\<lparr>amount := ''2.01'', balance := Some 1,
          sendError := ''Insufficient balance''\<rparr>, example_world)
   \<and> (\<exists>rest. requests (snd (handleSend example_connection example_platform example_wallet
          (example_sheet\<lparr>amount := ''0.3''\<rparr>) example_world)) =
        SendTransaction [\<lparr>fromPubkey = wallet_W, toPubkey = PublicKey ''R'',
                          lamports = 300000000\<rparr>] # rest)
   \<and> handleSend example_connection example_platform example_wallet
        (example_sheet\<lparr>amount := ''20000000000''\<rparr>) example_world =
       (example_sheet\<lparr>amount := ''20000000000'',
          sendError := failure_text (u64_error example_platform 20000000000000000000)\<rparr>,
        example_world)"
proof -
  let ?s = "example_sheet\<lparr>amount := ''2.01''\<rparr>"
  let ?s' = "example_sheet\<lparr>amount := ''0.3''\<rparr>"
  let ?s'' = "example_sheet\<lparr>amount := ''20000000000''\<rparr>"
  have big: "balance ?s'' = None" "isPublicKey example_platform (recipient ?s'')"
    "parseFloat example_platform (amount ?s'') = Some 20000000000" "(0::rat) < 20000000000"
    by (simp_all add: example_sheet_def example_platform_def)
  have nbig: "\<lfloor>ieee_times example_platform 20000000000 1000000000\<rfloor> = 20000000000000000000"
    by (simp add: example_platform_def)
  have h1: "publicKey example_wallet = Some wallet_W"
    and h2: "sendTransaction example_wallet = Some (\<lambda>tx. Inr ''sig1'')"
    by (simp_all add: example_wallet_def)
  have h3: "balance ?s = None" "balance ?s' = None"
    and h4: "isPublicKey example_platform (recipient ?s)"
      "isPublicKey example_platform (recipient ?s')"
    and h5: "parseFloat example_platform (amount ?s) = Some (1131529406376837 / 562949953421312)"
    and h5': "parseFloat example_platform (amount ?s') = Some (5404319552844595 / 18014398509481984)"
    by (simp_all add: example_sheet_def example_platform_def)
  have h6: "(0::rat) < 1131529406376837 / 562949953421312"
    and h6': "(0::rat) < 5404319552844595 / 18014398509481984"
    by simp_all
  have "\<lfloor>(8430551039999999 :: rat) / 4194304\<rfloor> = 2009999999"
    by code_simp
  then have n: "\<lfloor>ieee_times example_platform (1131529406376837 / 562949953421312) 1000000000\<rfloor> =
      2009999999"
    by (simp add: example_platform_def)
  have n': "\<lfloor>ieee_times example_platform (5404319552844595 / 18014398509481984) 1000000000\<rfloor> =
      300000000"
    by (simp add: example_platform_def)
  have p: "parseFloat example_platform ''2.01'' = Some (1131529406376837 / 562949953421312)"
    by (simp add: example_platform_def)
  have g: "getBalance example_connection wallet_W = Inr (1 * LAMPORTS_PER_SOL)"
    by (simp add: example_connection_def LAMPORTS_PER_SOL_def)
  have r: "recipient ?s = ''R''" "recipient ?s' = ''R''" "requests example_world = []"
    by (simp_all add: example_sheet_def example_world_def)
  note a = handleSend_unknown_balance [OF h1 h2 h3(1) h4(1) h5 h6,
      of example_connection example_world 1, unfolded n r]
  note b = handleSend_unknown_balance [OF h1 h2 h3(2) h4(2) h5' h6',
      of example_connection example_world 0, unfolded n' r]
  from a have a1: "\<exists>rest. requests (snd (handleSend example_connection example_platform
        example_wallet ?s example_world)) =
      SendTransaction [\<lparr>fromPubkey = wallet_W, toPubkey = PublicKey ''R'',
                        lamports = 2009999999\<rparr>] # rest"
    by simp
  from a have a2: "handleSend example_connection example_platform example_wallet
        (?s\<lparr>balance := Some 1\<rparr>) example_world =
      (?s\<lparr>balance := Some 1, sendError := ''Insufficient balance'', sendSuccess := []\<rparr>,
       example_world)"
    by simp
  from b have b1: "\<exists>rest. requests (snd (handleSend example_connection example_platform
        example_wallet ?s' example_world)) =
      SendTransaction [\<lparr>fromPubkey = wallet_W, toPubkey = PublicKey ''R'',
                        lamports = 300000000\<rparr>] # rest"
    by simp
  note c = handleSend_unknown_balance [OF h1 h2 big,
      of example_connection example_world 0, unfolded nbig]
  from c have c1: "handleSend example_connection example_platform example_wallet ?s''
        example_world =
      (?s''\<lparr>sendError := failure_text (u64_error example_platform 20000000000000000000),
            sendSuccess := [], sending := False\<rparr>, example_world)"
    by simp
  from a1 a2 b1 c1 h3(1) p g show ?thesis
    by (simp add: example_sheet_def)
qed

text \<open>
  The claim as first stated, "any positive amount passes validation and a network
  transfer of that amount is attempted", fails in the example at the amount
  20000000000: it parses to a positive number and the recipient is a public key, the
  balance is null, yet its 2 * 10^19 lamports do not fit 64 bits, the transfer cannot be
  built, the encoder's error is shown and no request is issued.
\<close>

theorem unknown_balance_counterexample:
  "balance (example_sheet\<lparr>amount := ''20000000000''\<rparr>) = None
   \<and> isPublicKey example_platform (recipient (example_sheet\<lparr>amount := ''20000000000''\<rparr>))
   \<and> parseFloat example_platform (amount (example_sheet\<lparr>amount := ''20000000000''\<rparr>)) =
       Some 20000000000
   \<and> requests (snd (handleSend example_connection example_platform example_wallet
        (example_sheet\<lparr>amount := ''20000000000''\<rparr>) example_world)) = []
   \<and> sendError (fst (handleSend example_connection example_platform example_wallet
        (example_sheet\<lparr>amount := ''20000000000''\<rparr>) example_world)) =
       failure_text (u64_error example_platform 20000000000000000000)"
  by (simp add: handleSend_def PublicKey_new_def SystemProgram_transfer_def failure_text_def
      Let_def LAMPORTS_PER_SOL_def example_sheet_def example_platform_def example_wallet_def
      example_world_def)

end
